theory Spec2Isabelle
  imports Main "HOL-Library.Word" "HOL-Library.AList" "HOL-Library.Finite_Map" "HOL-Library.Sublist"
begin

section \<open>Errors\<close>

text \<open>
  A Go \<^verbatim>\<open>error\<close> is a value; \<^verbatim>\<open>nil\<close> is \<open>None\<close> of \<open>err option\<close>.
  An error built with \<^verbatim>\<open>fmt.Errorf(format, args...)\<close> is kept as its format string
  and its arguments, so that two errors are equal exactly when they were built from the same
  format and the same arguments. \<open>Opaque\<close> is an error handed back by a collaborator
  (the expression evaluator, the container, the YAML decoder, strconv).
\<close>

datatype err = Errorf string "arg list" | Opaque string
  and arg = AStr string | AInt int | AErr err

section \<open>pkg/container: waitContainer\<close>

text \<open>
  \<^verbatim>\<open>cli.ContainerWait\<close> hands back two channels; the \<^verbatim>\<open>select\<close> takes whichever
  delivers first. What was received is the input of the model: a value from the error channel
  (possibly \<^verbatim>\<open>nil\<close>), or a status from the status channel (an \<^verbatim>\<open>int64\<close>).
\<close>

datatype wait_recv = FromErrCh "err option" | FromStatusCh "64 word"

text \<open>
  \<^verbatim>\<open>var statusCode int64\<close> starts at zero and is only set on the status branch; a
  \<^verbatim>\<open>nil\<close> on the error channel falls through with status 0.
\<close>

fun waitContainer :: "wait_recv \<Rightarrow> err option" where
  "waitContainer (FromErrCh (Some e)) = Some e"
| "waitContainer (FromErrCh None) = None"
| "waitContainer (FromStatusCh statusCode) =
     (if statusCode = 0 then None
      else if statusCode = 78 then Some (Errorf ''exiting with `NEUTRAL`: 78'' [])
      else Some (Errorf ''exit with `FAILURE`: %v'' [AInt (sint statusCode)]))"

section \<open>pkg/model: strategy options\<close>

subsection \<open>strconv\<close>

text \<open>
  \<^verbatim>\<open>strconv.ParseBool\<close> and \<^verbatim>\<open>strconv.Atoi\<close> of the Go standard library (64-bit
  \<^verbatim>\<open>int\<close>). Both return a value together with an error; on a failure the value is
  not the caller's previous one: \<^verbatim>\<open>false\<close> for ParseBool, \<^verbatim>\<open>0\<close> for a syntax
  error of Atoi and the nearest representable integer for a range error.
\<close>

definition ErrSyntax :: err where
  "ErrSyntax = Opaque ''invalid syntax''"

definition ErrRange :: err where
  "ErrRange = Opaque ''value out of range''"

definition ParseBool :: "string \<Rightarrow> bool \<times> err option" where
  "ParseBool str =
     (if str \<in> set [''1'', ''t'', ''T'', ''true'', ''TRUE'', ''True''] then (True, None)
      else if str \<in> set [''0'', ''f'', ''F'', ''false'', ''FALSE'', ''False''] then (False, None)
      else (False, Some ErrSyntax))"

definition isDigit :: "char \<Rightarrow> bool" where
  "isDigit c = ((48::nat) \<le> of_char c \<and> of_char c \<le> (57::nat))"

definition maxUint64 :: nat where
  "maxUint64 = 2 ^ 64 - 1"

text \<open>
  The digit loop of \<^verbatim>\<open>ParseUint(s, 10, 64)\<close>: it stops at the first byte that is not a
  decimal digit (syntax error) or at the first step that leaves the range of
  \<^verbatim>\<open>uint64\<close> (range error, value \<^verbatim>\<open>maxUint64\<close>), whichever comes first.
\<close>

fun parseDigits :: "nat \<Rightarrow> string \<Rightarrow> nat \<times> err option" where
  "parseDigits n [] = (n, None)"
| "parseDigits n (c # cs) =
     (if \<not> isDigit c then (0, Some ErrSyntax)
      else if n \<ge> maxUint64 div 10 + 1 then (maxUint64, Some ErrRange)
      else let n1 = n * 10 + (of_char c - 48) in
        if n1 > maxUint64 then (maxUint64, Some ErrRange)
        else parseDigits n1 cs)"

definition ParseUint :: "string \<Rightarrow> nat \<times> err option" where
  "ParseUint s = (if s = [] then (0, Some ErrSyntax) else parseDigits 0 s)"

definition ParseInt :: "string \<Rightarrow> int \<times> err option" where
  "ParseInt s =
     (if s = [] then (0, Some ErrSyntax)
      else
        let neg = (hd s = CHR ''-'');
            s1 = (if hd s = CHR ''+'' \<or> hd s = CHR ''-'' then tl s else s);
            (un, e) = ParseUint s1
        in if e \<noteq> None \<and> e \<noteq> Some ErrRange then (0, e)
           else if \<not> neg \<and> un \<ge> 2 ^ 63 then (2 ^ 63 - 1, Some ErrRange)
           else if neg \<and> un > 2 ^ 63 then (- (2 ^ 63), Some ErrRange)
           else (if neg then - int un else int un, None))"

text \<open>
  \<^verbatim>\<open>Atoi\<close> has a fast path for strings of 1 to 18 bytes and otherwise calls
  \<^verbatim>\<open>ParseInt(s, 10, 0)\<close>.
\<close>

fun atoiFast :: "int \<Rightarrow> string \<Rightarrow> int option" where
  "atoiFast n [] = Some n"
| "atoiFast n (c # cs) = (if \<not> isDigit c then None else atoiFast (n * 10 + (of_char c - 48)) cs)"

definition Atoi :: "string \<Rightarrow> int \<times> err option" where
  "Atoi s =
     (if 0 < length s \<and> length s < 19 then
        let s1 = (if hd s = CHR ''-'' \<or> hd s = CHR ''+'' then tl s else s) in
        if hd s = CHR ''-'' \<or> hd s = CHR ''+'' then
          (if length s1 < 1 then (0, Some ErrSyntax)
           else case atoiFast 0 s1 of
                  None \<Rightarrow> (0, Some ErrSyntax)
                | Some n \<Rightarrow> (if hd s = CHR ''-'' then - n else n, None))
        else (case atoiFast 0 s1 of
                None \<Rightarrow> (0, Some ErrSyntax)
              | Some n \<Rightarrow> (n, None))
      else ParseInt s)"

subsection \<open>Strategy\<close>

text \<open>
  The strategy of a job with the options the model reads. \<open>RawMatrix\<close> is the decoded
  matrix (see below); its type is a parameter here.
\<close>

record 'm Strategy =
  FailFast :: bool
  MaxParallel :: int
  FailFastString :: string
  MaxParallelString :: string
  RawMatrix :: 'm

text \<open>
  \<^verbatim>\<open>maxParallel := 4; if s.MaxParallelString != "" { if maxParallel, err = strconv.Atoi(...);
  err != nil { log.Errorf(...) } }; return maxParallel\<close>: the assignment stores Atoi's value
  whether or not it failed; the error is only logged.
\<close>

definition GetMaxParallel :: "('m, 'z) Strategy_scheme \<Rightarrow> int" where
  "GetMaxParallel s =
     (let maxParallel = 4 in
      if MaxParallelString s \<noteq> [] then fst (Atoi (MaxParallelString s)) else maxParallel)"

definition GetFailFast :: "('m, 'z) Strategy_scheme \<Rightarrow> bool" where
  "GetFailFast s =
     (let failFast = True in
      if FailFastString s \<noteq> [] then fst (ParseBool (FailFastString s)) else failFast)"

text \<open>Whether the call logs a parse failure (\<^verbatim>\<open>log.Errorf\<close>; never \<^verbatim>\<open>log.Fatal\<close>).\<close>

definition GetMaxParallel_logs :: "('m, 'z) Strategy_scheme \<Rightarrow> bool" where
  "GetMaxParallel_logs s = (MaxParallelString s \<noteq> [] \<and> snd (Atoi (MaxParallelString s)) \<noteq> None)"

definition GetFailFast_logs :: "('m, 'z) Strategy_scheme \<Rightarrow> bool" where
  "GetFailFast_logs s = (FailFastString s \<noteq> [] \<and> snd (ParseBool (FailFastString s)) \<noteq> None)"

section \<open>pkg/runner: composing the script of a run step\<close>

subsection \<open>Run contexts and steps\<close>

datatype stepStatus = StepStatusSuccess | StepStatusFailure | StepStatusSkipped

record StepResult =
  Outcome :: stepStatus
  Conclusion :: stepStatus
  Outputs :: "string \<rightharpoonup> string"

text \<open>
  The fields of \<^verbatim>\<open>RunContext\<close> that the modelled functions read or write. \<open>Parent\<close> is
  the pointer to the enclosing run context of a composite action (\<^verbatim>\<open>nil\<close> is \<open>None\<close>);
  as a datatype the chain of parents is finite.
\<close>

datatype RunContext =
  RunContext (CurrentStep: string) (StepResults: "string \<rightharpoonup> StepResult") (Parent: "RunContext option")

record Step =
  ID :: string
  Run :: string
  Shell :: string
  WorkingDirectory :: string
  RawContinueOnError :: string

text \<open>
  What \<^verbatim>\<open>rc.Run\<close> provides to the composer: the job's and the workflow's
  \<^verbatim>\<open>Defaults.Run\<close>, and \<^verbatim>\<open>rc.Run.Job().Container()\<close> (\<open>None\<close> for \<^verbatim>\<open>nil\<close>,
  otherwise the container's \<^verbatim>\<open>Image\<close>).
\<close>

record RunInfo =
  JobDefaultsRunShell :: string
  JobDefaultsRunWorkingDirectory :: string
  WorkflowDefaultsRunShell :: string
  WorkflowDefaultsRunWorkingDirectory :: string
  JobContainerImage :: "string option"

text \<open>
  Collaborators of the composer that are not part of the sources: the expression evaluator's
  \<^verbatim>\<open>Interpolate\<close>, \<^verbatim>\<open>shellquote.Split\<close> and the constant \<^verbatim>\<open>ActPath\<close>.
\<close>

record Composer =
  Interpolate :: "string \<Rightarrow> string"
  shellquoteSplit :: "string \<Rightarrow> string list \<times> err option"
  ActPath :: string

subsection \<open>getScriptName\<close>

text \<open>
  The loop \<^verbatim>\<open>for rcs := rc; rcs.Parent != nil; rcs = rcs.Parent\<close>, with
  \<^verbatim>\<open>fmt.Sprintf("%s-composite-%s", rcs.Parent.CurrentStep, scriptName)\<close> as its body.
\<close>

fun compositeLoop :: "RunContext \<Rightarrow> string \<Rightarrow> string" where
  "compositeLoop (RunContext cs rs None) scriptName = scriptName"
| "compositeLoop (RunContext cs rs (Some parent)) scriptName =
     compositeLoop parent (CurrentStep parent @ ''-composite-'' @ scriptName)"

definition getScriptName :: "RunContext \<Rightarrow> Step \<Rightarrow> string" where
  "getScriptName rc step = ''workflow/'' @ compositeLoop rc (ID step)"

text \<open>
  The current step ids of the enclosing run contexts, innermost first (used to state the
  naming property).
\<close>

fun ancestors :: "RunContext \<Rightarrow> string list" where
  "ancestors (RunContext cs rs None) = []"
| "ancestors (RunContext cs rs (Some parent)) = CurrentStep parent # ancestors parent"

subsection \<open>setupShell, setupWorkingDirectory, ShellCommand\<close>

definition setupShell :: "Composer \<Rightarrow> RunInfo \<Rightarrow> Step \<Rightarrow> Step" where
  "setupShell c run step =
     (let step1 = (if Shell step = [] then step\<lparr>Shell := JobDefaultsRunShell run\<rparr> else step);
          step2 = step1\<lparr>Shell := Interpolate c (Shell step1)\<rparr>;
          step3 = (if Shell step2 = [] then step2\<lparr>Shell := WorkflowDefaultsRunShell run\<rparr> else step2)
      in case JobContainerImage run of
           None \<Rightarrow> step3
         | Some img \<Rightarrow>
             if img \<noteq> [] \<and> Shell step3 = [] then step3\<lparr>Shell := ''sh''\<rparr> else step3)"

definition setupWorkingDirectory :: "Composer \<Rightarrow> RunInfo \<Rightarrow> Step \<Rightarrow> Step" where
  "setupWorkingDirectory c run step =
     (let step1 = (if WorkingDirectory step = []
                   then step\<lparr>WorkingDirectory := JobDefaultsRunWorkingDirectory run\<rparr> else step);
          step2 = step1\<lparr>WorkingDirectory := Interpolate c (WorkingDirectory step1)\<rparr>
      in if WorkingDirectory step2 = []
         then step2\<lparr>WorkingDirectory := WorkflowDefaultsRunWorkingDirectory run\<rparr> else step2)"

definition ShellCommand :: "Step \<Rightarrow> string" where
  "ShellCommand s =
     (if Shell s = [] \<or> Shell s = ''bash'' then ''bash --noprofile --norc -e -o pipefail {0}''
      else if Shell s = ''pwsh'' then ''pwsh -command . '' @ [CHR 0x27] @ ''{0}'' @ [CHR 0x27]
      else if Shell s = ''python'' then ''python {0}''
      else if Shell s = ''sh'' then ''sh -e -c {0}''
      else if Shell s = ''cmd'' then
        ''%ComSpec% /D /E:ON /V:OFF /S /C '' @ [CHR 0x22] @ ''CALL '' @ [CHR 0x22] @ ''{0}''
          @ [CHR 0x22, CHR 0x22]
      else if Shell s = ''powershell'' then
        ''powershell -command . '' @ [CHR 0x27] @ ''{0}'' @ [CHR 0x27]
      else Shell s)"

subsection \<open>setupShellCommand\<close>

text \<open>\<^verbatim>\<open>strings.Replace(s, old, new, 1)\<close> for a non-empty \<open>old\<close>: the first occurrence.\<close>

fun replaceFirst :: "string \<Rightarrow> string \<Rightarrow> string \<Rightarrow> string" where
  "replaceFirst old new [] = []"
| "replaceFirst old new (c # cs) =
     (if prefix old (c # cs) then new @ drop (length old) (c # cs)
      else c # replaceFirst old new cs)"

definition stopOnErrorLine :: string where
  "stopOnErrorLine = ''$ErrorActionPreference = '' @ [CHR 0x27] @ ''stop'' @ [CHR 0x27]"

definition lastExitCodeLine :: string where
  "lastExitCodeLine =
     ''if ((Test-Path -LiteralPath variable:/LASTEXITCODE)) { exit $LASTEXITCODE }''"

text \<open>The \<^verbatim>\<open>switch step.Shell\<close>: extension, \<^verbatim>\<open>runPrepend\<close>, \<^verbatim>\<open>runAppend\<close>.\<close>

definition shellBoilerplate :: "string \<Rightarrow> string \<times> string \<times> string" where
  "shellBoilerplate shell =
     (if shell = ''bash'' \<or> shell = ''sh'' then (''.sh'', [], [])
      else if shell = ''pwsh'' \<or> shell = ''powershell'' then
        (''.ps1'', stopOnErrorLine, lastExitCodeLine)
      else if shell = ''cmd'' then (''.cmd'', ''@echo off'', [])
      else if shell = ''python'' then (''.py'', [], [])
      else ([], [], []))"

text \<open>
  The three results of \<^verbatim>\<open>setupShellCommand\<close> together with what it leaves in the step
  context: the step with its shell and working directory resolved, and \<^verbatim>\<open>sc.Cmd\<close>.
\<close>

record ShellCommandResult =
  scriptName :: string
  script :: string
  splitErr :: "err option"
  stepAfter :: Step
  Cmd :: "string list"

definition setupShellCommand :: "Composer \<Rightarrow> RunInfo \<Rightarrow> RunContext \<Rightarrow> Step \<Rightarrow> ShellCommandResult" where
  "setupShellCommand c run rc step0 =
     (let step = setupWorkingDirectory c run (setupShell c run step0);
          script0 = Interpolate c (Run step);
          scCmd = ShellCommand step;
          name0 = getScriptName rc step;
          (ext, runPrepend, runAppend) = shellBoilerplate (Shell step);
          name = name0 @ ext;
          script1 = runPrepend @ [CHR 0x0A] @ script0 @ [CHR 0x0A] @ runAppend;
          scriptPath = ActPath c @ ''/'' @ name;
          (cmd, e) = shellquoteSplit c (replaceFirst ''{0}'' scriptPath scCmd)
      in \<lparr>scriptName = name, script = script1, splitErr = e, stepAfter = step, Cmd = cmd\<rparr>)"

subsection \<open>Examples\<close>

text \<open>
  Collaborators that leave every string as it is, a job without defaults or container, and the
  run context of a composite action that the step \<open>outer\<close> runs.
\<close>

definition exampleComposer :: Composer where
  "exampleComposer =
     \<lparr>Interpolate = (\<lambda>s. s), shellquoteSplit = (\<lambda>s. ([s], None)), ActPath = ''/var/run/act''\<rparr>"

definition exampleRunInfo :: RunInfo where
  "exampleRunInfo =
     \<lparr>JobDefaultsRunShell = [], JobDefaultsRunWorkingDirectory = [],
      WorkflowDefaultsRunShell = [], WorkflowDefaultsRunWorkingDirectory = [],
      JobContainerImage = None\<rparr>"

definition compositeContext :: RunContext where
  "compositeContext =
     RunContext ''build'' Map.empty (Some (RunContext ''outer'' Map.empty None))"

definition shellStep :: "string \<Rightarrow> Step" where
  "shellStep shell =
     \<lparr>ID = ''build'', Run = ''make'', Shell = shell, WorkingDirectory = [],
      RawContinueOnError = []\<rparr>"

section \<open>pkg/runner: the step executor\<close>

subsection \<open>strings.TrimSpace\<close>

text \<open>
  The UTF-8 encodings of the code points for which \<^verbatim>\<open>unicode.IsSpace\<close> holds: tab, line
  feed, vertical tab, form feed, carriage return, space, U+0085, U+00A0, U+1680,
  U+2000 to U+200A, U+2028, U+2029, U+202F, U+205F and U+3000.
\<close>

definition spaceSeqs :: "string list" where
  "spaceSeqs =
     [[CHR 0x09], [CHR 0x0A], [CHR 0x0B], [CHR 0x0C], [CHR 0x0D], [CHR 0x20],
      [CHR 0xC2, CHR 0x85], [CHR 0xC2, CHR 0xA0], [CHR 0xE1, CHR 0x9A, CHR 0x80],
      [CHR 0xE2, CHR 0x80, CHR 0x80], [CHR 0xE2, CHR 0x80, CHR 0x81], [CHR 0xE2, CHR 0x80, CHR 0x82],
      [CHR 0xE2, CHR 0x80, CHR 0x83], [CHR 0xE2, CHR 0x80, CHR 0x84], [CHR 0xE2, CHR 0x80, CHR 0x85],
      [CHR 0xE2, CHR 0x80, CHR 0x86], [CHR 0xE2, CHR 0x80, CHR 0x87], [CHR 0xE2, CHR 0x80, CHR 0x88],
      [CHR 0xE2, CHR 0x80, CHR 0x89], [CHR 0xE2, CHR 0x80, CHR 0x8A], [CHR 0xE2, CHR 0x80, CHR 0xA8],
      [CHR 0xE2, CHR 0x80, CHR 0xA9], [CHR 0xE2, CHR 0x80, CHR 0xAF], [CHR 0xE2, CHR 0x81, CHR 0x9F],
      [CHR 0xE3, CHR 0x80, CHR 0x80]]"

text \<open>
  \<^verbatim>\<open>TrimSpace\<close> removes white space code points from the front, then from the back. A
  string starts (ends) with a white space code point exactly when one of the encodings is a
  prefix (suffix) of its bytes.
\<close>

function trimLeft :: "string \<Rightarrow> string" where
  "trimLeft s =
     (case find (\<lambda>e. prefix e s) spaceSeqs of
        None \<Rightarrow> s
      | Some e \<Rightarrow> if e = [] then s else trimLeft (drop (length e) s))"
  by pat_completeness auto
termination
proof (relation "measure length")
  show "wf (measure length)" by simp
next
  fix s :: string and e :: string
  assume f: "find (\<lambda>e. prefix e s) spaceSeqs = Some e" and ne: "e \<noteq> []"
  from f have "prefix e s" by (auto simp: find_Some_iff)
  then have "length e \<le> length s" by (rule prefix_length_le)
  with ne show "(drop (length e) s, s) \<in> measure length" by (cases e) auto
qed

function trimRight :: "string \<Rightarrow> string" where
  "trimRight s =
     (case find (\<lambda>e. suffix e s) spaceSeqs of
        None \<Rightarrow> s
      | Some e \<Rightarrow> if e = [] then s else trimRight (take (length s - length e) s))"
  by pat_completeness auto
termination
proof (relation "measure length")
  show "wf (measure length)" by simp
next
  fix s :: string and e :: string
  assume f: "find (\<lambda>e. suffix e s) spaceSeqs = Some e" and ne: "e \<noteq> []"
  from f have "suffix e s" by (auto simp: find_Some_iff)
  then have "length e \<le> length s" by (rule suffix_length_le)
  with ne show "(take (length s - length e) s, s) \<in> measure length" by (cases e) auto
qed

definition TrimSpace :: "string \<Rightarrow> string" where
  "TrimSpace s = trimRight (trimLeft s)"

text \<open>A string that consists of white space code points only (the empty string included).\<close>

inductive whitespaceOnly :: "string \<Rightarrow> bool" where
  empty: "whitespaceOnly []"
| space: "e \<in> set spaceSeqs \<Longrightarrow> whitespaceOnly s \<Longrightarrow> whitespaceOnly (e @ s)"

subsection \<open>Collaborators and state\<close>

datatype stepStage = stepStagePre | stepStageMain | stepStagePost

datatype DefaultStatusCheck =
  DefaultStatusCheckNone | DefaultStatusCheckAlways | DefaultStatusCheckSuccess

datatype setter = setEnv | saveState | setOutput

text \<open>
  What the executor asks of its collaborators, none of which is part of the sources: the
  step's \<^verbatim>\<open>getIfExpression\<close>, the environment that \<^verbatim>\<open>setupEnv\<close> leaves, the expression
  evaluator behind \<^verbatim>\<open>EvalBool\<close>, the step body (\<^verbatim>\<open>executor\<close>), the container
  (\<^verbatim>\<open>GetActPath\<close>, \<^verbatim>\<open>UpdateFromEnv\<close>, which reads a file into key/value pairs),
  \<^verbatim>\<open>rc.UpdateExtraPath\<close> and \<^verbatim>\<open>path.Join\<close>. Each gives the answer it would give in the
  run at hand.
\<close>

record Collab =
  getIfExpression :: "stepStage \<Rightarrow> string"
  setupEnvResult :: "(string \<rightharpoonup> string) \<Rightarrow> (string \<rightharpoonup> string)"
  EvalBool :: "string \<Rightarrow> DefaultStatusCheck \<Rightarrow> err + bool"
  executor :: "err option"
  GetActPath :: string
  pathJoin :: "string \<Rightarrow> string \<Rightarrow> string"
  UpdateFromEnv :: "string \<Rightarrow> err + (string \<times> string) list"
  UpdateExtraPath :: "string \<Rightarrow> err option"

text \<open>
  Every call to a collaborator is recorded, in order. The setters \<^verbatim>\<open>rc.setEnv\<close>,
  \<^verbatim>\<open>rc.saveState\<close> and \<^verbatim>\<open>rc.setOutput\<close> are not part of the sources: a call is recorded
  with its key and value, its effect on the run context is not modelled.
\<close>

datatype event =
    CallEvalBool string DefaultStatusCheck
  | CallCopy string "string list"
  | CallExecutor
  | CallUpdateFromEnv string
  | CallSetter setter string string
  | CallUpdateExtraPath string

record RunState =
  rc :: RunContext
  stepEnv :: "string \<rightharpoonup> string"
  trace :: "event list"

definition emit :: "event list \<Rightarrow> RunState \<Rightarrow> RunState" where
  "emit es s = s\<lparr>trace := trace s @ es\<rparr>"

subsection \<open>processRunnerEnvFileCommand\<close>

definition processRunnerEnvFileCommand ::
  "Collab \<Rightarrow> string \<Rightarrow> setter \<Rightarrow> RunState \<Rightarrow> err option \<times> RunState" where
  "processRunnerEnvFileCommand c fileName st s =
     (let p = pathJoin c (GetActPath c) fileName in
      case UpdateFromEnv c p of
        Inl e \<Rightarrow> (Some e, emit [CallUpdateFromEnv p] s)
      | Inr env \<Rightarrow> (None, emit (CallUpdateFromEnv p # map (\<lambda>(k, v). CallSetter st k v) env) s))"

subsection \<open>isStepEnabled, isContinueOnError\<close>

definition ifErrorFormat :: string where
  "ifErrorFormat = ''  '' @ [CHR 0xE2, CHR 0x9D, CHR 0x8C] @ ''  Error in if-expression: ''
     @ [CHR 0x22] @ ''if: %s'' @ [CHR 0x22] @ '' (%s)''"

definition continueOnErrorFormat :: string where
  "continueOnErrorFormat = ''  '' @ [CHR 0xE2, CHR 0x9D, CHR 0x8C]
     @ ''  Error in continue-on-error-expression: ''
     @ [CHR 0x22] @ ''continue-on-error: %s'' @ [CHR 0x22] @ '' (%s)''"

definition isStepEnabled ::
  "Collab \<Rightarrow> string \<Rightarrow> stepStage \<Rightarrow> RunState \<Rightarrow> (err + bool) \<times> RunState" where
  "isStepEnabled c expr stage s =
     (let defaultStatusCheck =
            (if stage = stepStagePost then DefaultStatusCheckAlways else DefaultStatusCheckSuccess);
          s1 = emit [CallEvalBool expr defaultStatusCheck] s
      in case EvalBool c expr defaultStatusCheck of
           Inl e \<Rightarrow> (Inl (Errorf ifErrorFormat [AStr expr, AErr e]), s1)
         | Inr runStep \<Rightarrow> (Inr runStep, s1))"

definition isContinueOnError ::
  "Collab \<Rightarrow> string \<Rightarrow> stepStage \<Rightarrow> RunState \<Rightarrow> (err + bool) \<times> RunState" where
  "isContinueOnError c expr stage s =
     (if length (TrimSpace expr) = 0 then (Inr False, s)
      else
        let s1 = emit [CallEvalBool expr DefaultStatusCheckNone] s in
        case EvalBool c expr DefaultStatusCheckNone of
          Inl e \<Rightarrow> (Inl (Errorf continueOnErrorFormat [AStr expr, AErr e]), s1)
        | Inr continueOnError \<Rightarrow> (Inr continueOnError, s1))"

subsection \<open>runStepExecutor\<close>

text \<open>
  \<^verbatim>\<open>stepResult\<close> is a pointer. In the main stage the same pointer is stored in
  \<^verbatim>\<open>rc.StepResults[rc.CurrentStep]\<close>, so every later assignment through it changes the
  entry of the map; in the other stages the object is local. \<open>store\<close> writes the current
  value of the object through to the map in the main stage and does nothing otherwise.
\<close>

definition store :: "stepStage \<Rightarrow> StepResult \<Rightarrow> RunState \<Rightarrow> RunState" where
  "store stage stepResult s =
     (if stage = stepStageMain
      then s\<lparr>rc := RunContext (CurrentStep (rc s))
                      ((StepResults (rc s))(CurrentStep (rc s) \<mapsto> stepResult))
                      (Parent (rc s))\<rparr>
      else s)"

definition outputFileCommand :: string where "outputFileCommand = ''workflow/outputcmd.txt''"
definition stateFileCommand :: string where "stateFileCommand = ''workflow/statecmd.txt''"
definition pathFileCommand :: string where "pathFileCommand = ''workflow/pathcmd.txt''"
definition envFileCommand :: string where "envFileCommand = ''workflow/envs.txt''"
definition summaryFileCommand :: string where "summaryFileCommand = ''workflow/SUMMARY.md''"

text \<open>Lines 102 to 135: the five environment variables and the copy of the empty files.\<close>

definition prepareFileCommands :: "Collab \<Rightarrow> RunState \<Rightarrow> RunState" where
  "prepareFileCommands c s =
     (let actPath = GetActPath c;
          env = (stepEnv s)
            (''GITHUB_OUTPUT'' \<mapsto> pathJoin c actPath outputFileCommand,
             ''GITHUB_STATE'' \<mapsto> pathJoin c actPath stateFileCommand,
             ''GITHUB_PATH'' \<mapsto> pathJoin c actPath pathFileCommand,
             ''GITHUB_ENV'' \<mapsto> pathJoin c actPath envFileCommand,
             ''GITHUB_STEP_SUMMARY'' \<mapsto> pathJoin c actPath summaryFileCommand)
      in emit [CallCopy actPath [outputFileCommand, stateFileCommand, pathFileCommand,
                 envFileCommand, summaryFileCommand]] (s\<lparr>stepEnv := env\<rparr>))"

text \<open>
  Lines 160 to 181: the four files in their order, each with its early return, and the
  original error last.
\<close>

definition processRunnerFileCommands :: "Collab \<Rightarrow> err option \<Rightarrow> RunState \<Rightarrow> err option \<times> RunState" where
  "processRunnerFileCommands c orgerr s =
     (case processRunnerEnvFileCommand c envFileCommand setEnv s of
        (Some e, s1) \<Rightarrow> (Some e, s1)
      | (None, s1) \<Rightarrow>
     (case processRunnerEnvFileCommand c stateFileCommand saveState s1 of
        (Some e, s2) \<Rightarrow> (Some e, s2)
      | (None, s2) \<Rightarrow>
     (case processRunnerEnvFileCommand c outputFileCommand setOutput s2 of
        (Some e, s3) \<Rightarrow> (Some e, s3)
      | (None, s3) \<Rightarrow>
     (let p = pathJoin c (GetActPath c) pathFileCommand;
          s4 = emit [CallUpdateExtraPath p] s3
      in case UpdateExtraPath c p of
           Some e \<Rightarrow> (Some e, s4)
         | None \<Rightarrow> (if orgerr \<noteq> None then orgerr else None, s4)))))"

text \<open>\<^verbatim>\<open>setupEnv\<close> has one return statement, \<^verbatim>\<open>return nil\<close>.\<close>

definition setupEnv :: "Collab \<Rightarrow> RunState \<Rightarrow> err option \<times> RunState" where
  "setupEnv c s = (None, s\<lparr>stepEnv := setupEnvResult c (stepEnv s)\<rparr>)"

definition afterFailure :: "Collab \<Rightarrow> Step \<Rightarrow> stepStage \<Rightarrow> StepResult \<Rightarrow> err \<Rightarrow> RunState \<Rightarrow> err option \<times> RunState" where
  "afterFailure c step stage stepResult e s5 =
     (let stepResult1 = stepResult\<lparr>Outcome := StepStatusFailure\<rparr>;
          s6 = store stage stepResult1 s5
      in case isContinueOnError c (RawContinueOnError step) stage s6 of
           (Inl parseErr, s7) \<Rightarrow>
             (Some parseErr, store stage (stepResult1\<lparr>Conclusion := StepStatusFailure\<rparr>) s7)
         | (Inr continueOnError, s7) \<Rightarrow>
             (if continueOnError then
                processRunnerFileCommands c None
                  (store stage (stepResult1\<lparr>Conclusion := StepStatusSuccess\<rparr>) s7)
              else
                processRunnerFileCommands c (Some e)
                  (store stage (stepResult1\<lparr>Conclusion := StepStatusFailure\<rparr>) s7)))"

text \<open>
  The executor returned by \<^verbatim>\<open>runStepExecutor(step, stage, executor)\<close>, applied to a state.
  \<open>afterFailure\<close> is the \<^verbatim>\<open>else\<close> branch of \<^verbatim>\<open>if err == nil\<close> (lines 141 to 159)
  followed by the processing of the files; logging is left out.
\<close>

definition runStepExecutor :: "Collab \<Rightarrow> Step \<Rightarrow> stepStage \<Rightarrow> RunState \<Rightarrow> err option \<times> RunState" where
  "runStepExecutor c step stage s0 =
     (let ifExpression = getIfExpression c stage;
          s1 = s0\<lparr>rc := RunContext (ID step) (StepResults (rc s0)) (Parent (rc s0))\<rparr>;
          stepResult = \<lparr>Outcome = StepStatusSuccess, Conclusion = StepStatusSuccess,
                          Outputs = Map.empty\<rparr>;
          s2 = store stage stepResult s1
      in case setupEnv c s2 of
           (Some e, s3) \<Rightarrow> (Some e, s3)
         | (None, s3) \<Rightarrow>
             (case isStepEnabled c ifExpression stage s3 of
                (Inl e, s4) \<Rightarrow>
                  (Some e, store stage (stepResult\<lparr>Conclusion := StepStatusFailure,
                                                    Outcome := StepStatusFailure\<rparr>) s4)
              | (Inr runStep, s4) \<Rightarrow>
                  (if \<not> runStep then
                     (None, store stage (stepResult\<lparr>Conclusion := StepStatusSkipped,
                                                      Outcome := StepStatusSkipped\<rparr>) s4)
                   else
                     (let s5 = emit [CallExecutor] (prepareFileCommands c s4) in
                      (case executor c of
                         None \<Rightarrow> processRunnerFileCommands c None s5
                       | Some e \<Rightarrow> afterFailure c step stage stepResult e s5)))))"

subsection \<open>Auxiliary notions for the properties of the executor\<close>

text \<open>
  The first error among the four processing steps of \<open>processRunnerFileCommands\<close>, in
  their order, as a function of the collaborators' answers; \<open>None\<close> when all succeed.
\<close>

definition fileCommandError :: "Collab \<Rightarrow> err option" where
  "fileCommandError c =
     (case UpdateFromEnv c (pathJoin c (GetActPath c) envFileCommand) of
        Inl e \<Rightarrow> Some e
      | Inr _ \<Rightarrow>
     (case UpdateFromEnv c (pathJoin c (GetActPath c) stateFileCommand) of
        Inl e \<Rightarrow> Some e
      | Inr _ \<Rightarrow>
     (case UpdateFromEnv c (pathJoin c (GetActPath c) outputFileCommand) of
        Inl e \<Rightarrow> Some e
      | Inr _ \<Rightarrow> UpdateExtraPath c (pathJoin c (GetActPath c) pathFileCommand))))"

text \<open>The calls recorded between two states of one run.\<close>

definition newEvents :: "RunState \<Rightarrow> RunState \<Rightarrow> event list" where
  "newEvents s s' = drop (length (trace s)) (trace s')"

text \<open>The default status check that \<open>isStepEnabled\<close> chooses for a stage.\<close>

definition statusCheck :: "stepStage \<Rightarrow> DefaultStatusCheck" where
  "statusCheck stage =
     (if stage = stepStagePost then DefaultStatusCheckAlways else DefaultStatusCheckSuccess)"

text \<open>
  The calls that \<open>processRunnerEnvFileCommand\<close> and \<open>processRunnerFileCommands\<close>
  record: the read of each file, a setter call for each pair read, and nothing after the first
  read that fails.
\<close>

definition fileEvents :: "Collab \<Rightarrow> string \<Rightarrow> setter \<Rightarrow> event list" where
  "fileEvents c fileName st =
     CallUpdateFromEnv (pathJoin c (GetActPath c) fileName) #
       (case UpdateFromEnv c (pathJoin c (GetActPath c) fileName) of
          Inl e \<Rightarrow> []
        | Inr env \<Rightarrow> map (\<lambda>(k, v). CallSetter st k v) env)"

definition fileCommandEvents :: "Collab \<Rightarrow> event list" where
  "fileCommandEvents c =
     fileEvents c envFileCommand setEnv @
     (if isl (UpdateFromEnv c (pathJoin c (GetActPath c) envFileCommand)) then []
      else fileEvents c stateFileCommand saveState @
     (if isl (UpdateFromEnv c (pathJoin c (GetActPath c) stateFileCommand)) then []
      else fileEvents c outputFileCommand setOutput @
     (if isl (UpdateFromEnv c (pathJoin c (GetActPath c) outputFileCommand)) then []
      else [CallUpdateExtraPath (pathJoin c (GetActPath c) pathFileCommand)])))"

text \<open>
  The state of an invocation whose condition holds, at the moment the step body has returned.
\<close>

definition started :: "Collab \<Rightarrow> Step \<Rightarrow> stepStage \<Rightarrow> RunState \<Rightarrow> RunState" where
  "started c step stage s =
     emit [CallExecutor] (prepareFileCommands c
       (emit [CallEvalBool (getIfExpression c stage) (statusCheck stage)]
         (snd (setupEnv c
           (store stage \<lparr>Outcome = StepStatusSuccess, Conclusion = StepStatusSuccess, Outputs = Map.empty\<rparr>
              (s\<lparr>rc := RunContext (ID step) (StepResults (rc s)) (Parent (rc s))\<rparr>))))))"

text \<open>
  Concrete collaborators, a step and a state for the examples: the condition evaluates to
  \<open>ifResult\<close>, the body returns \<open>body\<close>, the continue-on-error expression evaluates to
  \<open>coe\<close>, files read as \<open>files\<close> says.
\<close>

definition exampleCollab ::
  "(err + bool) \<Rightarrow> err option \<Rightarrow> (err + bool) \<Rightarrow> (string \<Rightarrow> err + (string \<times> string) list) \<Rightarrow> Collab" where
  "exampleCollab ifResult body coe files =
     \<lparr>getIfExpression = (\<lambda>_. ''success()''),
      setupEnvResult = (\<lambda>env. env),
      EvalBool = (\<lambda>expr chk. if chk = DefaultStatusCheckNone then coe else ifResult),
      executor = body,
      GetActPath = ''/var/run/act'',
      pathJoin = (\<lambda>a b. a @ ''/'' @ b),
      UpdateFromEnv = files,
      UpdateExtraPath = (\<lambda>_. None)\<rparr>"

definition exampleStep :: "string \<Rightarrow> Step" where
  "exampleStep coe =
     \<lparr>ID = ''build'', Run = ''make'', Shell = ''bash'', WorkingDirectory = [],
      RawContinueOnError = coe\<rparr>"

definition exampleState :: RunState where
  "exampleState = \<lparr>rc = RunContext [] Map.empty None, stepEnv = Map.empty, trace = []\<rparr>"

definition noFiles :: "string \<Rightarrow> err + (string \<times> string) list" where
  "noFiles p = Inr []"

definition badEnvFile :: "string \<Rightarrow> err + (string \<times> string) list" where
  "badEnvFile p = (if p = ''/var/run/act/workflow/envs.txt''
                   then Inl (Opaque ''invalid env file'') else Inr [])"

section \<open>pkg/runner: merging environments without regard to case\<close>

subsection \<open>unicode.SimpleFold and strings.Map\<close>

text \<open>
  A Go \<^verbatim>\<open>rune\<close> is an \<^verbatim>\<open>int32\<close>. The key of an environment variable is taken as the
  sequence of its code points, which is what \<^verbatim>\<open>strings.Map\<close> ranges over; its value is
  never inspected.
\<close>

type_synonym rune = "32 word"

definition runes :: "string \<Rightarrow> rune list" where
  "runes s = map (\<lambda>c. of_nat (of_char c)) s"

text \<open>
  \<^verbatim>\<open>unicode.SimpleFold\<close>: a rune outside the range of Unicode is returned as it is; for an
  ASCII rune the table \<^verbatim>\<open>asciiFold\<close> answers (an upper case letter goes to its lower case
  letter, a lower case letter to its upper case letter, but \<^verbatim>\<open>k\<close> goes to the Kelvin sign
  U+212A and \<^verbatim>\<open>s\<close> to the long s U+017F, the next larger members of their orbits); for every
  other rune the tables \<^verbatim>\<open>caseOrbit\<close> and \<^verbatim>\<open>CaseRanges\<close> of the standard library
  answer. These tables are not reproduced: they are the parameter \<open>tab\<close>.
\<close>

definition asciiFold :: "rune \<Rightarrow> rune" where
  "asciiFold r =
     (if 0x41 \<le> sint r \<and> sint r \<le> 0x5A then r + 0x20
      else if r = 0x6B then 0x212A
      else if r = 0x73 then 0x17F
      else if 0x61 \<le> sint r \<and> sint r \<le> 0x7A then r - 0x20
      else r)"

definition SimpleFold :: "(rune \<Rightarrow> rune) \<Rightarrow> rune \<Rightarrow> rune" where
  "SimpleFold tab r =
     (if sint r < 0 \<or> sint r > 0x10FFFF then r
      else if sint r < 0x80 then asciiFold r
      else tab r)"

text \<open>
  The function literal passed to \<^verbatim>\<open>strings.Map\<close>:
  \<^verbatim>\<open>for { next := unicode.SimpleFold(r); if next <= r { return r }; r = next }\<close>.
  The comparison is the signed one of \<^verbatim>\<open>int32\<close>; the rune grows with every round, so
  the loop ends whatever the tables hold.
\<close>

function foldRune :: "(rune \<Rightarrow> rune) \<Rightarrow> rune \<Rightarrow> rune" where
  "foldRune tab r =
     (let next = SimpleFold tab r in
      if sint next \<le> sint r then r else foldRune tab next)"
  by pat_completeness auto
termination
proof (relation "measure (\<lambda>(tab, r). nat (2 ^ 31 - sint r))")
  show "wf (measure (\<lambda>(tab, r). nat (2 ^ 31 - sint r)))" by simp
next
  fix tab :: "rune \<Rightarrow> rune" and r n :: rune
  assume "n = SimpleFold tab r" and gt: "\<not> sint n \<le> sint r"
  have "sint n < 2 ^ 31" using sint_lt[of n] by simp
  with gt show "((tab, n), (tab, r)) \<in> measure (\<lambda>(tab, r). nat (2 ^ 31 - sint r))"
    by simp
qed

text \<open>
  \<^verbatim>\<open>strings.Map(mapping, s)\<close> on code points: a negative result drops the character; a
  result that is not a valid code point (a surrogate, or beyond U+10FFFF) is written as
  U+FFFD.
\<close>

definition writtenRune :: "rune \<Rightarrow> rune" where
  "writtenRune r =
     (if (0xD800 \<le> sint r \<and> sint r \<le> 0xDFFF) \<or> sint r > 0x10FFFF then 0xFFFD else r)"

definition stringsMap :: "(rune \<Rightarrow> rune) \<Rightarrow> rune list \<Rightarrow> rune list" where
  "stringsMap mapping s = map writtenRune (filter (\<lambda>r. 0 \<le> sint r) (map mapping s))"

definition foldkey :: "(rune \<Rightarrow> rune) \<Rightarrow> rune list \<Rightarrow> rune list" where
  "foldkey tab k = stringsMap (foldRune tab) k"

subsection \<open>mergeIntoMapCaseInsensitive\<close>

text \<open>
  A Go map that is ranged over is an association list with distinct keys, in the order in
  which \<^verbatim>\<open>range\<close> happens to visit it (Go leaves the order open, so a property is stated
  for every order). \<open>lookUp\<close> is only read and written by key. An assignment
  \<^verbatim>\<open>(*target)[k] = v\<close> is \<open>AList.update\<close>: it replaces the value of an existing key and
  adds a new key otherwise.
\<close>

type_synonym env = "(rune list \<times> string) list"

definition mergeEntry ::
  "(rune \<Rightarrow> rune) \<Rightarrow> (rune list \<rightharpoonup> rune list) \<times> env \<Rightarrow> rune list \<times> string
     \<Rightarrow> (rune list \<rightharpoonup> rune list) \<times> env" where
  "mergeEntry tab st kv =
     (let lookUp = fst st; target = snd st; k = fst kv; v = snd kv;
          fk = foldkey tab k
      in case lookUp fk of
           Some m \<Rightarrow> (lookUp, AList.update m v target)
         | None \<Rightarrow> (lookUp(fk \<mapsto> k), AList.update k v target))"

definition mergeSingleMapIntoMapCaseInsensitive ::
  "(rune \<Rightarrow> rune) \<Rightarrow> (rune list \<rightharpoonup> rune list) \<times> env \<Rightarrow> env
     \<Rightarrow> (rune list \<rightharpoonup> rune list) \<times> env" where
  "mergeSingleMapIntoMapCaseInsensitive tab st m = foldl (mergeEntry tab) st m"

text \<open>
  The first call ranges over \<^verbatim>\<open>*target\<close> while it assigns to it. It only assigns to keys
  that the loop has visited already or is visiting, and adds none, so the entries still to
  come are those of the map at the start.
\<close>

definition mergeIntoMapCaseInsensitive :: "(rune \<Rightarrow> rune) \<Rightarrow> env \<Rightarrow> env list \<Rightarrow> env" where
  "mergeIntoMapCaseInsensitive tab target maps =
     snd (foldl (mergeSingleMapIntoMapCaseInsensitive tab)
            (mergeSingleMapIntoMapCaseInsensitive tab (Map.empty, target) target) maps)"

text \<open>
  For the properties: among the writes \<open>ws\<close>, in their order, the first key written that
  folds to \<open>q\<close>, and the last value written under a key that folds to \<open>q\<close>.
\<close>

definition firstKey :: "('k \<Rightarrow> 'q) \<Rightarrow> ('k \<times> 'v) list \<Rightarrow> 'q \<Rightarrow> 'k option" where
  "firstKey f ws q = map_option fst (find (\<lambda>kv. f (fst kv) = q) ws)"

definition lastValue :: "('k \<Rightarrow> 'q) \<Rightarrow> ('k \<times> 'v) list \<Rightarrow> 'q \<Rightarrow> 'v option" where
  "lastValue f ws q = map_option snd (find (\<lambda>kv. f (fst kv) = q) (rev ws))"

section \<open>pkg/model: the matrix of a job\<close>

subsection \<open>Decoded values\<close>

text \<open>
  What the YAML decoder stores in an \<^verbatim>\<open>interface{}\<close>: \<^verbatim>\<open>nil\<close>, a boolean, an integer, a
  string, a \<^verbatim>\<open>[]interface{}\<close> or a \<^verbatim>\<open>map[string]interface{}\<close> (floating point numbers
  are left out). A map is a finite map, so two maps are equal exactly when they hold the
  same values under the same keys, which is what \<^verbatim>\<open>reflect.DeepEqual\<close> compares.
\<close>

datatype val = VNull | VBool bool | VInt int | VString string | VSeq "val list"
  | VMap "(string, val) fmap"

type_synonym binding = "(string, val) fmap"

text \<open>
  The decoded matrix, \<^verbatim>\<open>map[string][]interface{}\<close>: an association list with distinct
  keys, in the order in which \<^verbatim>\<open>range\<close> visits it. \<^verbatim>\<open>m[k]\<close> is \<open>map_of m k\<close>,
  \<^verbatim>\<open>delete(m, k)\<close> is \<open>AList.delete k m\<close>.
\<close>

type_synonym matrix = "(string \<times> val list) list"

text \<open>
  The two ways in which \<^verbatim>\<open>GetMatrixes\<close> does not return: a type assertion that fails
  panics, and \<^verbatim>\<open>log.Fatalf\<close> ends the process (its message names the offending key that
  \<^verbatim>\<open>range\<close> meets first, which is not modelled).
\<close>

datatype abort = Panic | Fatal

record Job =
  Strategy :: "matrix option Strategy option"

text \<open>
  \<^verbatim>\<open>Matrix()\<close> returns \<^verbatim>\<open>nil\<close> unless the raw matrix is a mapping node; the decoded
  mapping is the \<open>RawMatrix\<close> of the model. The caller has checked the strategy.
\<close>

definition Matrix :: "matrix option Strategy \<Rightarrow> matrix option" where
  "Matrix s = RawMatrix s"

text \<open>\<^verbatim>\<open>m[key]\<close> as a slice to range over: the \<^verbatim>\<open>nil\<close> slice of a missing key is empty.\<close>

definition entries :: "matrix \<Rightarrow> string \<Rightarrow> val list" where
  "entries m key = (case map_of m key of None \<Rightarrow> [] | Some vs \<Rightarrow> vs)"

subsection \<open>CartesianProduct\<close>

text \<open>
  Modelled from the spec: \<^verbatim>\<open>common.CartesianProduct\<close> is called by \<^verbatim>\<open>GetMatrixes\<close> and
  is not part of the sources. The spec, section 4.1: ``compute the cartesian product over the
  remaining axes (order need not be stable across axes, but the result set must contain
  exactly the product)''; section 8: ``the expanded-without-excludes set has exactly
  \<open>\<Prod>a\<^sub>i\<close> entries''. Every tuple binds each axis to one of its values; the first axis
  varies fastest.
\<close>

fun CartesianProduct :: "matrix \<Rightarrow> binding list" where
  "CartesianProduct [] = [fmempty]"
| "CartesianProduct ((k, vs) # rest) =
     concat (map (\<lambda>b. map (\<lambda>v. fmupd k v b) vs) (CartesianProduct rest))"

subsection \<open>commonKeysMatch\<close>

definition commonKeysMatch :: "binding \<Rightarrow> binding \<Rightarrow> bool" where
  "commonKeysMatch a b =
     fmpred (\<lambda>aKey aVal. case fmlookup b aKey of Some bVal \<Rightarrow> aVal = bVal | None \<Rightarrow> True) a"

subsection \<open>GetMatrixes\<close>

text \<open>
  \<^verbatim>\<open>for k := range i { if _, ok := m[k]; ok { includes = append(includes, i); break } }\<close>:
  the entry is appended once when one of its keys is a key of \<open>m\<close>, and not at all
  otherwise.
\<close>

definition namesKeyOf :: "matrix \<Rightarrow> binding \<Rightarrow> bool" where
  "namesKeyOf m i = fBex (fmdom i) (\<lambda>k. map_of m k \<noteq> None)"

text \<open>The inner loop over a \<^verbatim>\<open>[]interface{}\<close> element of \<^verbatim>\<open>m["include"]\<close>.\<close>

fun includeItems :: "matrix \<Rightarrow> val list \<Rightarrow> abort + binding list" where
  "includeItems m [] = Inr []"
| "includeItems m (i # t) =
     (case i of
        VMap i' \<Rightarrow>
          (case includeItems m t of
             Inl a \<Rightarrow> Inl a
           | Inr r \<Rightarrow> Inr ((if namesKeyOf m i' then [i'] else []) @ r))
      | _ \<Rightarrow> Inl Panic)"

text \<open>
  The type switch on an element of \<^verbatim>\<open>m["include"]\<close>: a list, or any other value that is
  not \<^verbatim>\<open>nil\<close>, which is then asserted to be a map. \<^verbatim>\<open>nil\<close> matches neither case.
\<close>

definition includeEntry :: "matrix \<Rightarrow> val \<Rightarrow> abort + binding list" where
  "includeEntry m v =
     (case v of
        VSeq t \<Rightarrow> includeItems m t
      | VNull \<Rightarrow> Inr []
      | VMap v' \<Rightarrow> Inr (if namesKeyOf m v' then [v'] else [])
      | _ \<Rightarrow> Inl Panic)"

fun collectIncludes :: "matrix \<Rightarrow> val list \<Rightarrow> abort + binding list" where
  "collectIncludes m [] = Inr []"
| "collectIncludes m (v # vs) =
     (case includeEntry m v of
        Inl a \<Rightarrow> Inl a
      | Inr r \<Rightarrow>
          (case collectIncludes m vs of
             Inl a \<Rightarrow> Inl a
           | Inr rs \<Rightarrow> Inr (r @ rs)))"

text \<open>
  The loop over \<^verbatim>\<open>m["exclude"]\<close>: each element is asserted to be a map; then
  \<^verbatim>\<open>for k := range e\<close> appends \<open>e\<close> once for every key of \<open>e\<close> that is a key of \<open>m\<close>
  and ends the process at a key that is not. So an entry all of whose keys are keys of
  \<open>m\<close> is appended as many times as it has keys, and any other entry is fatal.
\<close>

fun collectExcludes :: "matrix \<Rightarrow> val list \<Rightarrow> abort + binding list" where
  "collectExcludes m [] = Inr []"
| "collectExcludes m (e # es) =
     (case e of
        VMap e' \<Rightarrow>
          (if fBall (fmdom e') (\<lambda>k. map_of m k \<noteq> None) then
             (case collectExcludes m es of
                Inl a \<Rightarrow> Inl a
              | Inr r \<Rightarrow> Inr (replicate (fcard (fmdom e')) e' @ r))
           else Inl Fatal)
      | _ \<Rightarrow> Inl Panic)"

text \<open>
  \<^verbatim>\<open>GetMatrixes\<close> returns the list and leaves the resolved options in the strategy of the
  job; the model returns both. The loop labelled \<^verbatim>\<open>MATRIX\<close> keeps a tuple of the product
  unless \<open>commonKeysMatch\<close> holds of it and one of the collected excludes.
\<close>

definition GetMatrixes :: "Job \<Rightarrow> abort + Job \<times> binding list" where
  "GetMatrixes j =
     (case Strategy j of
        None \<Rightarrow> Inr (j, [fmempty])
      | Some s0 \<Rightarrow>
          (let s1 = s0\<lparr>FailFast := GetFailFast s0\<rparr>;
               s = s1\<lparr>MaxParallel := GetMaxParallel s1\<rparr>;
               j1 = j\<lparr>Strategy := Some s\<rparr>
           in case Matrix s of
                None \<Rightarrow> Inr (j1, [fmempty])
              | Some m \<Rightarrow>
                  (case collectIncludes m (entries m ''include'') of
                     Inl a \<Rightarrow> Inl a
                   | Inr includes \<Rightarrow>
                       (let m1 = AList.delete ''include'' m in
                        case collectExcludes m1 (entries m1 ''exclude'') of
                          Inl a \<Rightarrow> Inl a
                        | Inr excludes \<Rightarrow>
                            (let m2 = AList.delete ''exclude'' m1;
                                 matrixProduct = CartesianProduct m2
                             in Inr (j1,
                                  filter (\<lambda>matrix. \<not> list_ex (commonKeysMatch matrix) excludes)
                                    matrixProduct
                                  @ includes))))))"

text \<open>The list that \<^verbatim>\<open>GetMatrixes\<close> returns.\<close>

definition matrixes :: "Job \<Rightarrow> abort + binding list" where
  "matrixes j = map_sum (\<lambda>a. a) snd (GetMatrixes j)"

subsection \<open>Auxiliary notions and examples\<close>

text \<open>
  The maps listed under \<^verbatim>\<open>include\<close>, in their order: an element is a map or a list of
  maps.
\<close>

fun mapsIn :: "val list \<Rightarrow> binding list" where
  "mapsIn [] = []"
| "mapsIn (VMap i # t) = i # mapsIn t"
| "mapsIn (v # t) = mapsIn t"

fun includeMaps :: "val list \<Rightarrow> binding list" where
  "includeMaps [] = []"
| "includeMaps (VMap i # vs) = i # includeMaps vs"
| "includeMaps (VSeq t # vs) = mapsIn t @ includeMaps vs"
| "includeMaps (v # vs) = includeMaps vs"

text \<open>A job whose strategy holds the decoded matrix \<open>m\<close> and no options.\<close>

definition jobWithMatrix :: "matrix \<Rightarrow> Job" where
  "jobWithMatrix m =
     \<lparr>Strategy = Some \<lparr>FailFast = False, MaxParallel = 0, FailFastString = [],
                         MaxParallelString = [], RawMatrix = Some m\<rparr>\<rparr>"

section \<open>Properties\<close>

subsection \<open>Container exit status\<close>

text \<open>
  C6 (as the code has it): status 0 yields success (a nil error); status 78 yields an error
  value marked NEUTRAL, which is neither success nor the FAILURE error of any other status;
  every other non-zero status yields the FAILURE error carrying that status.
\<close>

theorem waitContainer_status:
  "waitContainer (FromStatusCh 0) = None
   \<and> waitContainer (FromStatusCh 78) = Some (Errorf ''exiting with `NEUTRAL`: 78'' [])
   \<and> waitContainer (FromStatusCh 78) \<noteq> waitContainer (FromStatusCh 0)
   \<and> (\<forall>n. n \<noteq> 78 \<longrightarrow> waitContainer (FromStatusCh n) \<noteq> waitContainer (FromStatusCh 78))
   \<and> (\<forall>n. n \<noteq> 0 \<and> n \<noteq> 78 \<longrightarrow>
         waitContainer (FromStatusCh n) = Some (Errorf ''exit with `FAILURE`: %v'' [AInt (sint n)]))"
  by simp

theorem waitContainer_status_witness:
  "(1::64 word) \<noteq> 78 \<and> (1::64 word) \<noteq> 0
   \<and> waitContainer (FromStatusCh 1) \<noteq> waitContainer (FromStatusCh 78)
   \<and> waitContainer (FromStatusCh 1) = Some (Errorf ''exit with `FAILURE`: %v'' [AInt (sint (1::64 word))])"
  using waitContainer_status by simp

text \<open>
  The claim as written calls the result for status 78 a non-error completion; the code
  returns a non-nil error for it.
\<close>

theorem waitContainer_neutral_is_error:
  "waitContainer (FromStatusCh 78) \<noteq> None"
  by simp

subsection \<open>Strategy options\<close>

text \<open>
  C7 at a failing input: a \<^verbatim>\<open>max-parallel\<close> literal that does not parse resolves to 0,
  not to the default 4, and a \<^verbatim>\<open>fail-fast\<close> literal that does not parse resolves to
  false, not to the default true; both failures are logged.
\<close>

theorem strategy_parse_failure_values:
  "GetMaxParallel \<lparr>FailFast = False, MaxParallel = 0, FailFastString = ''maybe'',
       MaxParallelString = ''abc'', RawMatrix = ()\<rparr> = 0
   \<and> GetFailFast \<lparr>FailFast = False, MaxParallel = 0, FailFastString = ''maybe'',
       MaxParallelString = ''abc'', RawMatrix = ()\<rparr> = False
   \<and> GetMaxParallel_logs \<lparr>FailFast = False, MaxParallel = 0, FailFastString = ''maybe'',
       MaxParallelString = ''abc'', RawMatrix = ()\<rparr>
   \<and> GetFailFast_logs \<lparr>FailFast = False, MaxParallel = 0, FailFastString = ''maybe'',
       MaxParallelString = ''abc'', RawMatrix = ()\<rparr>"
  by (simp add: GetMaxParallel_def GetFailFast_def GetMaxParallel_logs_def GetFailFast_logs_def
      Atoi_def ParseBool_def isDigit_def ErrSyntax_def)

subsection \<open>White space\<close>

declare trimLeft.simps [simp del] trimRight.simps [simp del]

lemma spaceSeqs_nonempty: "e \<in> set spaceSeqs \<Longrightarrow> e \<noteq> []"
  by (auto simp: spaceSeqs_def)

lemma spaceSeqs_prefix_free_aux:
  "\<forall>e \<in> set spaceSeqs. \<forall>e' \<in> set spaceSeqs. prefix e' e \<longrightarrow> e' = e"
  by (simp add: spaceSeqs_def)

lemma spaceSeqs_prefix_free:
  assumes "e \<in> set spaceSeqs" "e' \<in> set spaceSeqs" "prefix e' (e @ t)"
  shows "e' = e"
proof -
  from assms(3) have "prefix e' e \<or> prefix e e'"
    by (metis prefix_append prefix_def)
  with assms(1,2) show ?thesis using spaceSeqs_prefix_free_aux by blast
qed

lemma find_prefix_space:
  assumes "e \<in> set spaceSeqs"
  shows "find (\<lambda>x. prefix x (e @ s)) spaceSeqs = Some e"
proof (cases "find (\<lambda>x. prefix x (e @ s)) spaceSeqs")
  case None
  with assms show ?thesis by (auto simp: find_None_iff)
next
  case (Some e')
  then have "e' \<in> set spaceSeqs" "prefix e' (e @ s)"
    by (auto simp: find_Some_iff)
  with assms Some show ?thesis using spaceSeqs_prefix_free by blast
qed

lemma trimLeft_whitespaceOnly: "whitespaceOnly s \<Longrightarrow> trimLeft s = []"
proof (induction rule: whitespaceOnly.induct)
  case empty
  show ?case by (subst trimLeft.simps) (simp add: spaceSeqs_def)
next
  case (space e s)
  then show ?case
    by (subst trimLeft.simps) (simp add: find_prefix_space spaceSeqs_nonempty)
qed

lemma trimLeft_decomp: "\<exists>w. whitespaceOnly w \<and> s = w @ trimLeft s"
proof (induction s rule: trimLeft.induct)
  case (1 s)
  show ?case
  proof (cases "find (\<lambda>e. prefix e s) spaceSeqs")
    case None
    then have "trimLeft s = s" by (subst trimLeft.simps) simp
    then show ?thesis using whitespaceOnly.empty by force
  next
    case (Some e)
    then have e: "e \<in> set spaceSeqs" "prefix e s" by (auto simp: find_Some_iff)
    then have ne: "e \<noteq> []" by (simp add: spaceSeqs_nonempty)
    from Some ne have tl: "trimLeft s = trimLeft (drop (length e) s)"
      by (subst trimLeft.simps) simp
    from "1.IH"[OF Some ne] obtain w where
      w: "whitespaceOnly w" "drop (length e) s = w @ trimLeft (drop (length e) s)" by blast
    from e(2) have "s = e @ drop (length e) s" by (auto simp: prefix_def)
    with w tl have "s = (e @ w) @ trimLeft s" by simp
    moreover have "whitespaceOnly (e @ w)" using e(1) w(1) by (rule whitespaceOnly.space)
    ultimately show ?thesis by blast
  qed
qed

lemma trimLeft_no_space_prefix: "find (\<lambda>e. prefix e (trimLeft s)) spaceSeqs = None"
proof (induction s rule: trimLeft.induct)
  case (1 s)
  show ?case
  proof (cases "find (\<lambda>e. prefix e s) spaceSeqs")
    case None
    then have "trimLeft s = s" by (subst trimLeft.simps) simp
    with None show ?thesis by simp
  next
    case (Some e)
    then have e: "e \<in> set spaceSeqs" by (auto simp: find_Some_iff)
    then have ne: "e \<noteq> []" by (simp add: spaceSeqs_nonempty)
    from Some ne have "trimLeft s = trimLeft (drop (length e) s)"
      by (subst trimLeft.simps) simp
    with "1.IH"[OF Some ne] show ?thesis by simp
  qed
qed

lemma trimRight_empty_prefix:
  "trimRight t = [] \<Longrightarrow> t \<noteq> [] \<Longrightarrow> \<exists>e \<in> set spaceSeqs. prefix e t"
proof (induction t rule: trimRight.induct)
  case (1 s)
  show ?case
  proof (cases "find (\<lambda>e. suffix e s) spaceSeqs")
    case None
    then have "trimRight s = s" by (subst trimRight.simps) simp
    with "1.prems" show ?thesis by simp
  next
    case (Some e)
    then have e: "e \<in> set spaceSeqs" "suffix e s" by (auto simp: find_Some_iff)
    then have ne: "e \<noteq> []" by (simp add: spaceSeqs_nonempty)
    let ?t = "take (length s - length e) s"
    from Some ne have tr: "trimRight s = trimRight ?t" by (subst trimRight.simps) simp
    from e(2) have s: "s = ?t @ e" by (rule suffix_take)
    show ?thesis
    proof (cases "?t = []")
      case True
      with s have "s = e" by simp
      with e(1) show ?thesis by auto
    next
      case False
      with "1.IH"[OF Some ne] tr "1.prems"(1) obtain e0 where
        "e0 \<in> set spaceSeqs" "prefix e0 ?t" by auto
      moreover have "prefix ?t s" by (simp add: take_is_prefix)
      ultimately show ?thesis using prefix_order.trans by blast
    qed
  qed
qed

lemma trimRight_Nil: "trimRight [] = []"
  by (subst trimRight.simps) (simp add: spaceSeqs_def)

lemma TrimSpace_empty_iff: "TrimSpace s = [] \<longleftrightarrow> whitespaceOnly s"
proof
  assume a: "TrimSpace s = []"
  have "trimLeft s = []"
  proof (rule ccontr)
    assume ne: "trimLeft s \<noteq> []"
    from a have "trimRight (trimLeft s) = []" by (simp add: TrimSpace_def)
    from trimRight_empty_prefix[OF this ne] obtain e where
      "e \<in> set spaceSeqs" "prefix e (trimLeft s)" by blast
    with trimLeft_no_space_prefix[of s] show False by (auto simp: find_None_iff)
  qed
  with trimLeft_decomp[of s] show "whitespaceOnly s" by auto
next
  assume "whitespaceOnly s"
  then show "TrimSpace s = []" by (simp add: TrimSpace_def trimLeft_whitespaceOnly trimRight_Nil)
qed

subsection \<open>The step executor\<close>

lemma rc_emit [simp]: "rc (emit es s) = rc s"
  by (simp add: emit_def)

lemma trace_emit [simp]: "trace (emit es s) = trace s @ es"
  by (simp add: emit_def)

lemma rc_store: "rc (store stage r s) =
  (if stage = stepStageMain
   then RunContext (CurrentStep (rc s)) ((StepResults (rc s))(CurrentStep (rc s) \<mapsto> r)) (Parent (rc s))
   else rc s)"
  by (simp add: store_def)

lemma trace_store [simp]: "trace (store stage r s) = trace s"
  by (simp add: store_def)

lemma pREFC_fst: "fst (processRunnerEnvFileCommand c f st s) =
  (case UpdateFromEnv c (pathJoin c (GetActPath c) f) of Inl e \<Rightarrow> Some e | Inr _ \<Rightarrow> None)"
  by (simp add: processRunnerEnvFileCommand_def Let_def split: sum.splits)

lemma pREFC_rc [simp]: "rc (snd (processRunnerEnvFileCommand c f st s)) = rc s"
  by (simp add: processRunnerEnvFileCommand_def Let_def split: sum.splits)

lemma pREFC_trace: "trace (snd (processRunnerEnvFileCommand c f st s)) =
  trace s @ CallUpdateFromEnv (pathJoin c (GetActPath c) f) #
    (case UpdateFromEnv c (pathJoin c (GetActPath c) f) of Inl e \<Rightarrow> []
     | Inr env \<Rightarrow> map (\<lambda>(k, v). CallSetter st k v) env)"
  by (simp add: processRunnerEnvFileCommand_def Let_def split: sum.splits)

lemma pRFC_fst: "fst (processRunnerFileCommands c orgerr s) =
  (case fileCommandError c of Some p \<Rightarrow> Some p | None \<Rightarrow> orgerr)"
  by (auto simp: processRunnerFileCommands_def fileCommandError_def Let_def
      processRunnerEnvFileCommand_def split: sum.splits option.splits prod.splits)

lemma pRFC_rc [simp]: "rc (snd (processRunnerFileCommands c orgerr s)) = rc s"
  by (auto simp: processRunnerFileCommands_def Let_def
      processRunnerEnvFileCommand_def split: sum.splits option.splits prod.splits)

lemma pRFC_trace: "trace (snd (processRunnerFileCommands c orgerr s)) = trace s @ fileCommandEvents c"
  by (auto simp: processRunnerFileCommands_def fileCommandEvents_def fileEvents_def Let_def
      processRunnerEnvFileCommand_def split: sum.splits option.splits prod.splits)

lemma fileCommandEvents_env:
  "CallUpdateFromEnv (pathJoin c (GetActPath c) envFileCommand) \<in> set (fileCommandEvents c)"
  by (simp add: fileCommandEvents_def fileEvents_def)

lemma fileCommandEvents_all:
  "fileCommandError c = None \<Longrightarrow>
     CallUpdateFromEnv (pathJoin c (GetActPath c) stateFileCommand) \<in> set (fileCommandEvents c)
   \<and> CallUpdateFromEnv (pathJoin c (GetActPath c) outputFileCommand) \<in> set (fileCommandEvents c)
   \<and> CallUpdateExtraPath (pathJoin c (GetActPath c) pathFileCommand) \<in> set (fileCommandEvents c)"
  by (auto simp: fileCommandEvents_def fileEvents_def fileCommandError_def split: sum.splits)

lemma fileCommandEvents_no_eval: "CallEvalBool x d \<notin> set (fileCommandEvents c)"
  by (auto simp: fileCommandEvents_def fileEvents_def split: sum.splits)

lemma rc_prepareFileCommands [simp]: "rc (prepareFileCommands c s) = rc s"
  by (simp add: prepareFileCommands_def Let_def)

lemma trace_prepareFileCommands [simp]: "trace (prepareFileCommands c s) =
  trace s @ [CallCopy (GetActPath c) [outputFileCommand, stateFileCommand, pathFileCommand,
                 envFileCommand, summaryFileCommand]]"
  by (simp add: prepareFileCommands_def Let_def)

lemma isContinueOnError_blank:
  "whitespaceOnly expr \<Longrightarrow> isContinueOnError c expr stage s = (Inr False, s)"
  by (simp add: isContinueOnError_def TrimSpace_empty_iff)

lemma isContinueOnError_eval:
  "\<not> whitespaceOnly expr \<Longrightarrow> isContinueOnError c expr stage s =
     (case EvalBool c expr DefaultStatusCheckNone of
        Inl e \<Rightarrow> Inl (Errorf continueOnErrorFormat [AStr expr, AErr e])
      | Inr b \<Rightarrow> Inr b, emit [CallEvalBool expr DefaultStatusCheckNone] s)"
  by (simp add: isContinueOnError_def TrimSpace_empty_iff Let_def split: sum.splits)

lemma isStepEnabled_eq: "isStepEnabled c expr stage s =
     (case EvalBool c expr (statusCheck stage) of
        Inl e \<Rightarrow> Inl (Errorf ifErrorFormat [AStr expr, AErr e])
      | Inr b \<Rightarrow> Inr b, emit [CallEvalBool expr (statusCheck stage)] s)"
  by (simp add: isStepEnabled_def statusCheck_def Let_def split: sum.splits)

lemma runStepExecutor_disabled:
  "EvalBool c (getIfExpression c stage) (statusCheck stage) = Inr False \<Longrightarrow>
   runStepExecutor c step stage s =
     (None, store stage \<lparr>Outcome = StepStatusSkipped, Conclusion = StepStatusSkipped, Outputs = Map.empty\<rparr>
        (emit [CallEvalBool (getIfExpression c stage) (statusCheck stage)]
          (snd (setupEnv c (store stage \<lparr>Outcome = StepStatusSuccess, Conclusion = StepStatusSuccess, Outputs = Map.empty\<rparr>
            (s\<lparr>rc := RunContext (ID step) (StepResults (rc s)) (Parent (rc s))\<rparr>))))))"
  by (simp add: runStepExecutor_def Let_def setupEnv_def isStepEnabled_eq)


lemma trace_setupEnv [simp]: "trace (snd (setupEnv c s)) = trace s"
  by (simp add: setupEnv_def)

lemma rc_setupEnv [simp]: "rc (snd (setupEnv c s)) = rc s"
  by (simp add: setupEnv_def)

lemma trace_started: "trace (started c step stage s) =
   trace s @ [CallEvalBool (getIfExpression c stage) (statusCheck stage),
     CallCopy (GetActPath c) [outputFileCommand, stateFileCommand, pathFileCommand,
                 envFileCommand, summaryFileCommand], CallExecutor]"
  by (simp add: started_def)

lemma rc_started: "rc (started c step stage s) =
  (if stage = stepStageMain
   then RunContext (ID step) ((StepResults (rc s))(ID step \<mapsto>
          \<lparr>Outcome = StepStatusSuccess, Conclusion = StepStatusSuccess, Outputs = Map.empty\<rparr>)) (Parent (rc s))
   else RunContext (ID step) (StepResults (rc s)) (Parent (rc s)))"
  by (simp add: started_def rc_store)

lemma runStepExecutor_failure:
  assumes "EvalBool c (getIfExpression c stage) (statusCheck stage) = Inr True"
      and "executor c = Some e"
  shows "runStepExecutor c step stage s =
     afterFailure c step stage
       \<lparr>Outcome = StepStatusSuccess, Conclusion = StepStatusSuccess, Outputs = Map.empty\<rparr> e
       (started c step stage s)"
  using assms by (simp add: runStepExecutor_def Let_def setupEnv_def isStepEnabled_eq started_def)

lemma afterFailure_false:
  assumes "whitespaceOnly (RawContinueOnError step)
         \<or> EvalBool c (RawContinueOnError step) DefaultStatusCheckNone = Inr False"
  shows "fst (afterFailure c step stage r e s) =
           (case fileCommandError c of Some p \<Rightarrow> Some p | None \<Rightarrow> Some e)"
    and "rc (snd (afterFailure c step stage r e s)) =
           rc (store stage (r\<lparr>Outcome := StepStatusFailure, Conclusion := StepStatusFailure\<rparr>) s)"
    and "trace (snd (afterFailure c step stage r e s)) =
           trace s @ (if whitespaceOnly (RawContinueOnError step) then []
                      else [CallEvalBool (RawContinueOnError step) DefaultStatusCheckNone])
             @ fileCommandEvents c"
  using assms
  by (cases "whitespaceOnly (RawContinueOnError step)";
      auto simp: afterFailure_def Let_def isContinueOnError_blank isContinueOnError_eval
      pRFC_fst pRFC_trace rc_store)+

lemma afterFailure_true:
  assumes "\<not> whitespaceOnly (RawContinueOnError step)"
      and "EvalBool c (RawContinueOnError step) DefaultStatusCheckNone = Inr True"
  shows "fst (afterFailure c step stage r e s) = fileCommandError c"
    and "rc (snd (afterFailure c step stage r e s)) =
           rc (store stage (r\<lparr>Outcome := StepStatusFailure, Conclusion := StepStatusSuccess\<rparr>) s)"
    and "trace (snd (afterFailure c step stage r e s)) =
           trace s @ [CallEvalBool (RawContinueOnError step) DefaultStatusCheckNone]
             @ fileCommandEvents c"
  using assms
  by (auto simp: afterFailure_def Let_def isContinueOnError_eval
      pRFC_fst pRFC_trace rc_store split: option.splits)

lemma afterFailure_parse_error:
  assumes "\<not> whitespaceOnly (RawContinueOnError step)"
      and "EvalBool c (RawContinueOnError step) DefaultStatusCheckNone = Inl pe"
  shows "afterFailure c step stage r e s =
           (Some (Errorf continueOnErrorFormat [AStr (RawContinueOnError step), AErr pe]),
            store stage (r\<lparr>Outcome := StepStatusFailure, Conclusion := StepStatusFailure\<rparr>)
              (emit [CallEvalBool (RawContinueOnError step) DefaultStatusCheckNone]
                 (store stage (r\<lparr>Outcome := StepStatusFailure\<rparr>) s)))"
  using assms
  by (simp add: afterFailure_def Let_def isContinueOnError_eval)

lemma whitespaceOnly_hd: "whitespaceOnly s \<Longrightarrow> s \<noteq> [] \<Longrightarrow> hd s \<in> hd ` set spaceSeqs"
proof (induction rule: whitespaceOnly.induct)
  case empty
  then show ?case by simp
next
  case (space e s)
  then have "e \<noteq> []" by (simp add: spaceSeqs_nonempty)
  then have "hd (e @ s) = hd e" by simp
  with space.hyps(1) show ?case by simp
qed

lemma not_whitespaceOnly_true: "\<not> whitespaceOnly ''true''"
proof
  assume "whitespaceOnly ''true''"
  then have "hd ''true'' \<in> hd ` set spaceSeqs" by (rule whitespaceOnly_hd) simp
  then show False by (simp add: spaceSeqs_def)
qed

lemma fileCommandError_noFiles [simp]: "fileCommandError (exampleCollab i b k noFiles) = None"
  by (simp add: fileCommandError_def exampleCollab_def noFiles_def)

lemma fileCommandError_badEnvFile [simp]:
  "fileCommandError (exampleCollab i b k badEnvFile) = Some (Opaque ''invalid env file'')"
  by (simp add: fileCommandError_def exampleCollab_def badEnvFile_def envFileCommand_def)

lemma newEvents_append [simp]: "trace s' = trace s @ es \<Longrightarrow> newEvents s s' = es"
  by (simp add: newEvents_def)

text \<open>
  C1 (as the code has it): when the step body fails and the failure is not suppressed, the
  files are still processed, after the body, in their order. The body's error is the result
  when all of the processing succeeds. When a processing step fails, its error is the result:
  each processing step returns its error at once, whether or not the body had failed.
\<close>

theorem runStepExecutor_unsuppressed_failure:
  assumes "EvalBool c (getIfExpression c stage) (statusCheck stage) = Inr True"
      and "executor c = Some e"
      and "whitespaceOnly (RawContinueOnError step)
           \<or> EvalBool c (RawContinueOnError step) DefaultStatusCheckNone = Inr False"
  shows "fst (runStepExecutor c step stage s) =
           (case fileCommandError c of Some p \<Rightarrow> Some p | None \<Rightarrow> Some e)
       \<and> newEvents s (snd (runStepExecutor c step stage s)) =
           [CallEvalBool (getIfExpression c stage) (statusCheck stage),
            CallCopy (GetActPath c) [outputFileCommand, stateFileCommand, pathFileCommand,
              envFileCommand, summaryFileCommand],
            CallExecutor]
           @ (if whitespaceOnly (RawContinueOnError step) then []
              else [CallEvalBool (RawContinueOnError step) DefaultStatusCheckNone])
           @ fileCommandEvents c
       \<and> CallUpdateFromEnv (pathJoin c (GetActPath c) envFileCommand) \<in> set (fileCommandEvents c)
       \<and> (fileCommandError c = None \<longrightarrow>
             CallUpdateFromEnv (pathJoin c (GetActPath c) stateFileCommand) \<in> set (fileCommandEvents c)
           \<and> CallUpdateFromEnv (pathJoin c (GetActPath c) outputFileCommand) \<in> set (fileCommandEvents c)
           \<and> CallUpdateExtraPath (pathJoin c (GetActPath c) pathFileCommand) \<in> set (fileCommandEvents c))"
proof -
  note run = runStepExecutor_failure[OF assms(1,2), of step s]
  have "trace (snd (runStepExecutor c step stage s)) = trace s @
           [CallEvalBool (getIfExpression c stage) (statusCheck stage),
            CallCopy (GetActPath c) [outputFileCommand, stateFileCommand, pathFileCommand,
              envFileCommand, summaryFileCommand],
            CallExecutor]
           @ (if whitespaceOnly (RawContinueOnError step) then []
              else [CallEvalBool (RawContinueOnError step) DefaultStatusCheckNone])
           @ fileCommandEvents c"
    by (simp only: run afterFailure_false(3)[OF assms(3)] trace_started append_assoc)
  then show ?thesis
    using fileCommandEvents_all[of c]
    by (simp add: run afterFailure_false(1)[OF assms(3)] fileCommandEvents_env)
qed

theorem runStepExecutor_unsuppressed_failure_witness:
  "fst (runStepExecutor (exampleCollab (Inr True) (Some (Opaque ''exit 1'')) (Inr False) noFiles)
          (exampleStep []) stepStageMain exampleState) = Some (Opaque ''exit 1'')"
  using runStepExecutor_unsuppressed_failure[of
      "exampleCollab (Inr True) (Some (Opaque ''exit 1'')) (Inr False) noFiles"
      stepStageMain "Opaque ''exit 1''" "exampleStep []" exampleState]
  by (simp add: exampleCollab_def statusCheck_def exampleStep_def whitespaceOnly.empty
      fileCommandError_def noFiles_def)

text \<open>
  The claim C1 as written says that a processing error never replaces a failure of the body.
  Here the body fails, continue-on-error is empty, the env file cannot be read: the result is
  the error of the env file.
\<close>

theorem processing_error_replaces_body_error:
  "executor (exampleCollab (Inr True) (Some (Opaque ''exit 1'')) (Inr False) badEnvFile)
     = Some (Opaque ''exit 1'')
   \<and> fst (runStepExecutor (exampleCollab (Inr True) (Some (Opaque ''exit 1'')) (Inr False) badEnvFile)
          (exampleStep []) stepStageMain exampleState) = Some (Opaque ''invalid env file'')"
proof -
  let ?c = "exampleCollab (Inr True) (Some (Opaque ''exit 1'')) (Inr False) badEnvFile"
  have 1: "EvalBool ?c (getIfExpression ?c stepStageMain) (statusCheck stepStageMain) = Inr True"
    by (simp add: exampleCollab_def statusCheck_def)
  have 2: "executor ?c = Some (Opaque ''exit 1'')" by (simp add: exampleCollab_def)
  have 3: "whitespaceOnly (RawContinueOnError (exampleStep []))
           \<or> EvalBool ?c (RawContinueOnError (exampleStep [])) DefaultStatusCheckNone = Inr False"
    by (simp add: exampleStep_def whitespaceOnly.empty)
  show ?thesis
    by (simp add: 2 runStepExecutor_failure[OF 1 2] afterFailure_false(1)[OF 3])
qed


lemma not_whitespaceOnly_hd: "s \<noteq> [] \<Longrightarrow> hd s \<notin> hd ` set spaceSeqs \<Longrightarrow> \<not> whitespaceOnly s"
  using whitespaceOnly_hd by blast

lemma whitespaceOnly_two_spaces: "whitespaceOnly ''  ''"
proof -
  have sp: "[CHR 0x20] \<in> set spaceSeqs" by (simp add: spaceSeqs_def)
  have "whitespaceOnly ([CHR 0x20] @ [])" using sp whitespaceOnly.empty by (rule whitespaceOnly.space)
  with sp have "whitespaceOnly ([CHR 0x20] @ ([CHR 0x20] @ []))" by (rule whitespaceOnly.space)
  then show ?thesis by simp
qed




subsection \<open>The script of a run step\<close>

lemma compositeLoop_ancestors:
  "compositeLoop ctx n = concat (map (\<lambda>a. a @ ''-composite-'') (rev (ancestors ctx))) @ n"
  by (induction ctx n rule: compositeLoop.induct) simp_all

lemma Shell_setupWorkingDirectory [simp]: "Shell (setupWorkingDirectory c run step) = Shell step"
  by (simp add: setupWorkingDirectory_def Let_def)

lemma ID_setupWorkingDirectory [simp]: "ID (setupWorkingDirectory c run step) = ID step"
  by (simp add: setupWorkingDirectory_def Let_def)

lemma Run_setupWorkingDirectory [simp]: "Run (setupWorkingDirectory c run step) = Run step"
  by (simp add: setupWorkingDirectory_def Let_def)

lemma ID_setupShell [simp]: "ID (setupShell c run step) = ID step"
  by (simp add: setupShell_def Let_def split: option.splits)

lemma Run_setupShell [simp]: "Run (setupShell c run step) = Run step"
  by (simp add: setupShell_def Let_def split: option.splits)

lemma getScriptName_ID: "ID step' = ID step \<Longrightarrow> getScriptName ctx step' = getScriptName ctx step"
  by (simp add: getScriptName_def)

lemma setupShellCommand_name_script:
  "scriptName (setupShellCommand c run ctx step) =
     getScriptName ctx step @ fst (shellBoilerplate (Shell (setupShell c run step)))
   \<and> script (setupShellCommand c run ctx step) =
     fst (snd (shellBoilerplate (Shell (setupShell c run step)))) @ [CHR 0x0A]
       @ Interpolate c (Run step) @ [CHR 0x0A]
       @ snd (snd (shellBoilerplate (Shell (setupShell c run step))))"
  by (simp add: setupShellCommand_def Let_def getScriptName_def split: prod.splits)

text \<open>
  C9: when the shell that \<open>setupShell\<close> resolves is pwsh, the name of the script ends in
  .ps1 and its body is the stop-on-error line, the interpolated run body and, last, the line
  that propagates the last exit code. When it is bash, the name ends in .sh and the body is
  the interpolated run body between the two line breaks of the template, with nothing
  prepended or appended. The name is built under the directory \<open>workflow/\<close> from the step
  id, with one prefix \<open>id-composite-\<close> for each enclosing run context: the step build in a
  context whose only parent has the current step outer is named outer-composite-build.
\<close>

theorem setupShellCommand_script:
  "(Shell (setupShell c run step) = ''pwsh'' \<longrightarrow>
      scriptName (setupShellCommand c run ctx step) = getScriptName ctx step @ ''.ps1''
    \<and> suffix ''.ps1'' (scriptName (setupShellCommand c run ctx step))
    \<and> script (setupShellCommand c run ctx step) =
        stopOnErrorLine @ [CHR 0x0A] @ Interpolate c (Run step) @ [CHR 0x0A] @ lastExitCodeLine
    \<and> suffix lastExitCodeLine (script (setupShellCommand c run ctx step)))
   \<and> (Shell (setupShell c run step) = ''bash'' \<longrightarrow>
      scriptName (setupShellCommand c run ctx step) = getScriptName ctx step @ ''.sh''
    \<and> suffix ''.sh'' (scriptName (setupShellCommand c run ctx step))
    \<and> script (setupShellCommand c run ctx step) =
        [CHR 0x0A] @ Interpolate c (Run step) @ [CHR 0x0A])
   \<and> getScriptName ctx step =
        ''workflow/'' @ concat (map (\<lambda>a. a @ ''-composite-'') (rev (ancestors ctx))) @ ID step
   \<and> (ID step = ''build'' \<and> ancestors ctx = [''outer''] \<longrightarrow>
        getScriptName ctx step = ''workflow/outer-composite-build'')"
proof (intro conjI impI)
  note ns = setupShellCommand_name_script[of c run ctx step]
  show g: "getScriptName ctx step =
        ''workflow/'' @ concat (map (\<lambda>a. a @ ''-composite-'') (rev (ancestors ctx))) @ ID step"
    by (simp add: getScriptName_def compositeLoop_ancestors)
  show "getScriptName ctx step = ''workflow/outer-composite-build''"
    if "ID step = ''build'' \<and> ancestors ctx = [''outer'']"
    using that by (simp add: g)
  {
    assume sh: "Shell (setupShell c run step) = ''pwsh''"
    show n: "scriptName (setupShellCommand c run ctx step) = getScriptName ctx step @ ''.ps1''"
      by (simp add: ns sh shellBoilerplate_def)
    show "suffix ''.ps1'' (scriptName (setupShellCommand c run ctx step))"
      unfolding n by (rule suffixI) simp
    show s: "script (setupShellCommand c run ctx step) =
        stopOnErrorLine @ [CHR 0x0A] @ Interpolate c (Run step) @ [CHR 0x0A] @ lastExitCodeLine"
      by (simp add: ns sh shellBoilerplate_def)
    show "suffix lastExitCodeLine (script (setupShellCommand c run ctx step))"
      unfolding s by (rule suffixI[of _ "stopOnErrorLine @ [CHR 0x0A] @ Interpolate c (Run step) @ [CHR 0x0A]"]) simp
  }
  {
    assume sh: "Shell (setupShell c run step) = ''bash''"
    show n: "scriptName (setupShellCommand c run ctx step) = getScriptName ctx step @ ''.sh''"
      by (simp add: ns sh shellBoilerplate_def)
    show "suffix ''.sh'' (scriptName (setupShellCommand c run ctx step))"
      unfolding n by (rule suffixI) simp
    show "script (setupShellCommand c run ctx step) =
        [CHR 0x0A] @ Interpolate c (Run step) @ [CHR 0x0A]"
      by (simp add: ns sh shellBoilerplate_def)
  }
qed

theorem setupShellCommand_script_witness:
  "scriptName (setupShellCommand exampleComposer exampleRunInfo compositeContext (shellStep ''pwsh''))
     = ''workflow/outer-composite-build.ps1''
   \<and> script (setupShellCommand exampleComposer exampleRunInfo compositeContext (shellStep ''pwsh''))
     = stopOnErrorLine @ [CHR 0x0A] @ ''make'' @ [CHR 0x0A] @ lastExitCodeLine
   \<and> scriptName (setupShellCommand exampleComposer exampleRunInfo compositeContext (shellStep ''bash''))
     = ''workflow/outer-composite-build.sh''
   \<and> script (setupShellCommand exampleComposer exampleRunInfo compositeContext (shellStep ''bash''))
     = [CHR 0x0A] @ ''make'' @ [CHR 0x0A]"
  using setupShellCommand_script[of exampleComposer exampleRunInfo "shellStep ''pwsh''" compositeContext]
        setupShellCommand_script[of exampleComposer exampleRunInfo "shellStep ''bash''" compositeContext]
  by (simp add: exampleComposer_def exampleRunInfo_def compositeContext_def shellStep_def
      setupShell_def)

subsection \<open>Merging environments without regard to case\<close>

declare foldRune.simps [simp del]

lemma find_snoc:
  "find P (xs @ [x]) = (case find P xs of Some y \<Rightarrow> Some y | None \<Rightarrow> if P x then Some x else None)"
  by (induction xs) simp_all

lemma firstKey_snoc:
  "firstKey f (ws @ [(k, v)]) q =
     (case firstKey f ws q of Some k0 \<Rightarrow> Some k0 | None \<Rightarrow> if f k = q then Some k else None)"
  by (simp add: firstKey_def find_snoc split: option.splits)

lemma lastValue_snoc:
  "lastValue f (ws @ [(k, v)]) q = (if f k = q then Some v else lastValue f ws q)"
  by (simp add: lastValue_def)

lemma find_Some_holds: "find P xs = Some x \<Longrightarrow> P x \<and> x \<in> set xs"
  by (induction xs) (auto split: if_splits)

lemma firstKey_Some_fold: "firstKey f ws q = Some k \<Longrightarrow> f k = q"
  by (auto simp: firstKey_def dest: find_Some_holds)

lemma firstKey_Some_mem: "firstKey f ws q = Some k \<Longrightarrow> k \<in> fst ` set ws"
  by (force simp: firstKey_def dest!: find_Some_holds)

lemma firstKeys_snoc_None:
  assumes "firstKey f ws (f k) = None"
  shows "{k'. \<exists>q. firstKey f (ws @ [(k, v)]) q = Some k'} =
         insert k {k'. \<exists>q. firstKey f ws q = Some k'}"
proof (intro set_eqI iffI)
  fix x assume "x \<in> {k'. \<exists>q. firstKey f (ws @ [(k, v)]) q = Some k'}"
  then obtain q where "firstKey f (ws @ [(k, v)]) q = Some x" by blast
  then have "firstKey f ws q = Some x \<or> x = k"
    by (auto simp: firstKey_snoc split: option.splits if_splits)
  then show "x \<in> insert k {k'. \<exists>q. firstKey f ws q = Some k'}" by blast
next
  fix x assume "x \<in> insert k {k'. \<exists>q. firstKey f ws q = Some k'}"
  then consider "x = k" | q where "firstKey f ws q = Some x" by blast
  then show "x \<in> {k'. \<exists>q. firstKey f (ws @ [(k, v)]) q = Some k'}"
  proof cases
    case 1
    with assms have "firstKey f (ws @ [(k, v)]) (f k) = Some x" by (simp add: firstKey_snoc)
    then show ?thesis by blast
  next
    case 2
    then have "firstKey f (ws @ [(k, v)]) q = Some x" by (simp add: firstKey_snoc)
    then show ?thesis by blast
  qed
qed

lemma firstKey_snoc_Some:
  assumes "firstKey f ws (f k) = Some m"
  shows "firstKey f (ws @ [(k, v)]) = firstKey f ws"
proof (rule ext)
  fix q show "firstKey f (ws @ [(k, v)]) q = firstKey f ws q"
    using assms by (cases "q = f k") (auto simp: firstKey_snoc split: option.splits)
qed

lemma firstKey_None_iff: "firstKey f ws q = None \<longleftrightarrow> q \<notin> f ` fst ` set ws"
  by (auto simp: firstKey_def find_None_iff image_iff)

lemma fst_set_update: "fst ` set (AList.update k v al) = insert k (fst ` set al)"
  using dom_update[of k v al] by (simp add: dom_map_of_conv_image_fst)

lemma merge_invariant:
  "foldl (mergeEntry tab) (Map.empty, T0) ws = (L, T) \<Longrightarrow>
     L = firstKey (foldkey tab) ws
   \<and> (\<forall>q k. firstKey (foldkey tab) ws q = Some k \<longrightarrow> map_of T k = lastValue (foldkey tab) ws q)
   \<and> fst ` set T = fst ` set T0 \<union> {k. \<exists>q. firstKey (foldkey tab) ws q = Some k}
   \<and> (distinct (map fst T0) \<longrightarrow> distinct (map fst T))"
proof (induction ws arbitrary: L T rule: rev_induct)
  case Nil
  then show ?case by (auto simp: firstKey_def lastValue_def)
next
  case (snoc w ws)
  obtain k v where w: "w = (k, v)" by (cases w)
  obtain L0 T1 where st: "foldl (mergeEntry tab) (Map.empty, T0) ws = (L0, T1)"
    by (cases "foldl (mergeEntry tab) (Map.empty, T0) ws")
  from snoc.IH[OF st] have
    L0: "L0 = firstKey (foldkey tab) ws" and
    vals: "\<And>q k. firstKey (foldkey tab) ws q = Some k \<Longrightarrow> map_of T1 k = lastValue (foldkey tab) ws q" and
    keys: "fst ` set T1 = fst ` set T0 \<union> {k. \<exists>q. firstKey (foldkey tab) ws q = Some k}" and
    dist: "distinct (map fst T0) \<longrightarrow> distinct (map fst T1)"
    by blast+
  let ?q = "foldkey tab k"
  from snoc.prems st w have step: "(L, T) = mergeEntry tab (L0, T1) (k, v)" by simp
  show ?case
  proof (cases "firstKey (foldkey tab) ws ?q")
    case None
    with step L0 have L: "L = (firstKey (foldkey tab) ws)(?q \<mapsto> k)" and T: "T = AList.update k v T1"
      by (simp_all add: mergeEntry_def Let_def)
    have 1: "L = firstKey (foldkey tab) (ws @ [w])"
      unfolding L w by (rule ext) (simp add: firstKey_snoc None split: option.splits)
    have 2: "map_of T k' = lastValue (foldkey tab) (ws @ [w]) q"
      if "firstKey (foldkey tab) (ws @ [w]) q = Some k'" for q k'
    proof (cases "q = ?q")
      case True
      with that None have "k' = k" by (simp add: w firstKey_snoc)
      with True show ?thesis by (simp add: T w lastValue_snoc update_conv')
    next
      case False
      with that have fk: "firstKey (foldkey tab) ws q = Some k'"
        by (auto simp: w firstKey_snoc split: option.splits if_splits)
      then have "foldkey tab k' = q" by (rule firstKey_Some_fold)
      with False have "k' \<noteq> k" by auto
      with False vals[OF fk] show ?thesis by (simp add: T w lastValue_snoc update_conv')
    qed
    have 3: "fst ` set T = fst ` set T0 \<union> {k'. \<exists>q. firstKey (foldkey tab) (ws @ [w]) q = Some k'}"
      unfolding T fst_set_update keys w firstKeys_snoc_None[OF None] by blast
    have 4: "distinct (map fst T0) \<longrightarrow> distinct (map fst T)"
      using dist by (simp add: T distinct_update)
    from 1 2 3 4 show ?thesis by blast
  next
    case (Some m)
    with step L0 have L: "L = firstKey (foldkey tab) ws" and T: "T = AList.update m v T1"
      by (simp_all add: mergeEntry_def Let_def)
    from Some have fm: "foldkey tab m = ?q" by (rule firstKey_Some_fold)
    have 1: "L = firstKey (foldkey tab) (ws @ [w])"
      unfolding L w firstKey_snoc_Some[OF Some] ..
    have 2: "map_of T k' = lastValue (foldkey tab) (ws @ [w]) q"
      if "firstKey (foldkey tab) (ws @ [w]) q = Some k'" for q k'
    proof (cases "q = ?q")
      case True
      with that Some have "k' = m" by (simp add: w firstKey_snoc)
      with True show ?thesis by (simp add: T w lastValue_snoc update_conv')
    next
      case False
      with that have fk: "firstKey (foldkey tab) ws q = Some k'"
        by (auto simp: w firstKey_snoc split: option.splits if_splits)
      then have "foldkey tab k' = q" by (rule firstKey_Some_fold)
      with False fm have "k' \<noteq> m" by auto
      with False vals[OF fk] show ?thesis by (simp add: T w lastValue_snoc update_conv')
    qed
    have "m \<in> fst ` set T1" using keys Some by auto
    then have 3: "fst ` set T = fst ` set T0 \<union> {k'. \<exists>q. firstKey (foldkey tab) (ws @ [w]) q = Some k'}"
      unfolding T fst_set_update w firstKey_snoc_Some[OF Some] using keys by blast
    have 4: "distinct (map fst T0) \<longrightarrow> distinct (map fst T)"
      using dist by (simp add: T distinct_update)
    from 1 2 3 4 show ?thesis by blast
  qed
qed

lemma foldl_mergeSingle:
  "foldl (mergeSingleMapIntoMapCaseInsensitive tab) st maps = foldl (mergeEntry tab) st (concat maps)"
  by (induction maps arbitrary: st) (simp_all add: mergeSingleMapIntoMapCaseInsensitive_def)

lemma mergeIntoMapCaseInsensitive_eq:
  "mergeIntoMapCaseInsensitive tab target maps =
     snd (foldl (mergeEntry tab) (Map.empty, target) (target @ concat maps))"
  by (simp add: mergeIntoMapCaseInsensitive_def foldl_mergeSingle
      mergeSingleMapIntoMapCaseInsensitive_def)


lemma lastValue_Some: "(k, v) \<in> set ws \<Longrightarrow> \<exists>v0. lastValue f ws (f k) = Some v0"
proof -
  assume "(k, v) \<in> set ws"
  then have mem: "(k, v) \<in> set (rev ws)" by simp
  have "find (\<lambda>kv. f (fst kv) = f k) (rev ws) \<noteq> None"
  proof
    assume "find (\<lambda>kv. f (fst kv) = f k) (rev ws) = None"
    then have "\<not> (\<exists>x. x \<in> set (rev ws) \<and> f (fst x) = f k)" unfolding find_None_iff .
    with mem show False by force
  qed
  then show ?thesis by (auto simp: lastValue_def)
qed

lemma firstKey_Some: "(k, v) \<in> set ws \<Longrightarrow> \<exists>k0. firstKey f ws (f k) = Some k0"
proof -
  assume "(k, v) \<in> set ws"
  then have mem: "(k, v) \<in> set ws" by simp
  have "find (\<lambda>kv. f (fst kv) = f k) ws \<noteq> None"
  proof
    assume "find (\<lambda>kv. f (fst kv) = f k) ws = None"
    then have "\<not> (\<exists>x. x \<in> set ws \<and> f (fst x) = f k)" unfolding find_None_iff .
    with mem show False by force
  qed
  then show ?thesis by (auto simp: firstKey_def)
qed

lemma foldRune_example:
  "foldRune tab 0x50 = 0x70" "foldRune tab 0x41 = 0x61" "foldRune tab 0x54 = 0x74"
  "foldRune tab 0x48 = 0x68" "foldRune tab 0x61 = 0x61" "foldRune tab 0x74 = 0x74"
  "foldRune tab 0x68 = 0x68" "foldRune tab 0x70 = 0x70"
  by (subst foldRune.simps, simp add: SimpleFold_def asciiFold_def,
      (subst foldRune.simps, simp add: SimpleFold_def asciiFold_def)?)+

lemma foldkey_Path: "foldkey tab (runes ''Path'') = runes ''path''"
  "foldkey tab (runes ''PATH'') = runes ''path''"
  by (simp_all add: foldkey_def stringsMap_def runes_def foldRune_example writtenRune_def)

lemma runes_Path_neq: "runes ''PATH'' \<noteq> runes ''Path''"
  by (simp add: runes_def)

lemma merge_Path_example:
  "mergeIntoMapCaseInsensitive tab [] [[(runes ''Path'', ''1'')], [(runes ''PATH'', ''2'')]]
     = [(runes ''Path'', ''2'')]"
  "mergeIntoMapCaseInsensitive tab [(runes ''Path'', ''1'')] [[(runes ''PATH'', ''2'')]]
     = [(runes ''Path'', ''2'')]"
  by (simp_all add: mergeIntoMapCaseInsensitive_eq mergeEntry_def Let_def foldkey_Path)



end
